theory Spec2Isabelle
  imports Complex_Main
begin

section \<open>Python values\<close>

text \<open>
  The sky model reader of \<^verbatim>\<open>beam_errors/sources.py\<close> is embedded as pure functions.
  Every exception the Python code can raise is a value of \<open>error\<close>; a function that may
  raise returns \<open>error + 'a\<close>, with \<open>Inl\<close> carrying the exception. The messages of
  exceptions raised by the interpreter itself are not modelled (they are \<open>[]\<close>); the
  messages the source writes are.

  Text is ASCII. A Python float is \<open>pyfloat\<close>: a finite value is the real number it
  denotes (no rounding, one zero), next to the two infinities and NaN. Sums, products and
  quotients of finite values stay finite, where Python would go to infinity without raising;
  the one float operation of the source that raises on overflow, \<^verbatim>\<open>**\<close> on Python floats,
  raises here too (\<open>py_pow\<close>). A Python int is an \<open>int\<close>; the limit on the digits of
  \<^verbatim>\<open>int(s)\<close> and an int too large for a float are not modelled. Opening and decoding the
  file are outside the model: \<^verbatim>\<open>Skymodel\<close> starts from the lines of the file.
\<close>

datatype error =
    ValueError string
  | KeyError string
  | IndexError
  | TypeError
  | ZeroDivisionError
  | OverflowError

datatype pyfloat = Fin real | PInf | NInf | NaN

text \<open>What \<^verbatim>\<open>Source\<close> may receive as reference frequency: a float, or the string that
  \<^verbatim>\<open>get_item\<close> returns.\<close>

datatype pyval = VFloat pyfloat | VStr string

definition and_then :: "error + 'a \<Rightarrow> ('a \<Rightarrow> error + 'b) \<Rightarrow> error + 'b" where
  "and_then m f = (case m of Inl e \<Rightarrow> Inl e | Inr x \<Rightarrow> f x)"

subsection \<open>Float arithmetic\<close>

fun pf_add :: "pyfloat \<Rightarrow> pyfloat \<Rightarrow> pyfloat" where
  "pf_add NaN _ = NaN"
| "pf_add _ NaN = NaN"
| "pf_add (Fin a) (Fin b) = Fin (a + b)"
| "pf_add PInf NInf = NaN"
| "pf_add NInf PInf = NaN"
| "pf_add PInf _ = PInf"
| "pf_add NInf _ = NInf"
| "pf_add (Fin a) y = y"

fun pf_mul :: "pyfloat \<Rightarrow> pyfloat \<Rightarrow> pyfloat" where
  "pf_mul NaN _ = NaN"
| "pf_mul _ NaN = NaN"
| "pf_mul (Fin a) (Fin b) = Fin (a * b)"
| "pf_mul (Fin a) PInf = (if a = 0 then NaN else if 0 < a then PInf else NInf)"
| "pf_mul (Fin a) NInf = (if a = 0 then NaN else if 0 < a then NInf else PInf)"
| "pf_mul PInf (Fin b) = (if b = 0 then NaN else if 0 < b then PInf else NInf)"
| "pf_mul NInf (Fin b) = (if b = 0 then NaN else if 0 < b then NInf else PInf)"
| "pf_mul PInf PInf = PInf"
| "pf_mul PInf NInf = NInf"
| "pf_mul NInf PInf = NInf"
| "pf_mul NInf NInf = PInf"

text \<open>The quotient by a divisor that is not zero.\<close>

fun pf_quot :: "pyfloat \<Rightarrow> pyfloat \<Rightarrow> pyfloat" where
  "pf_quot NaN _ = NaN"
| "pf_quot _ NaN = NaN"
| "pf_quot (Fin a) (Fin b) = Fin (a / b)"
| "pf_quot (Fin a) _ = Fin 0"
| "pf_quot PInf (Fin b) = (if 0 < b then PInf else NInf)"
| "pf_quot NInf (Fin b) = (if 0 < b then NInf else PInf)"
| "pf_quot _ _ = NaN"

text \<open>\<^verbatim>\<open>a / b\<close> on Python floats raises on a zero divisor, whatever \<open>a\<close> is.\<close>

definition pf_truediv :: "pyfloat \<Rightarrow> pyfloat \<Rightarrow> error + pyfloat" where
  "pf_truediv a b = (if b = Fin 0 then Inl ZeroDivisionError else Inr (pf_quot a b))"

text \<open>\<^verbatim>\<open>x ** i\<close> for a numpy float \<open>x\<close> and an integer \<open>i \<ge> 0\<close>: anything to the power
  0 is 1, and numpy raises nothing.\<close>

definition np_pow :: "pyfloat \<Rightarrow> nat \<Rightarrow> pyfloat" where
  "np_pow x i =
     (if i = 0 then Fin 1
      else case x of
             Fin r \<Rightarrow> Fin (r ^ i)
           | PInf \<Rightarrow> PInf
           | NInf \<Rightarrow> (if odd i then NInf else PInf)
           | NaN \<Rightarrow> NaN)"

text \<open>\<^verbatim>\<open>x ** i\<close> for a Python float \<open>x\<close> and an integer \<open>i \<ge> 0\<close>: the same values, but a
  finite \<open>x\<close> whose power is beyond the largest float raises \<^verbatim>\<open>OverflowError\<close>.\<close>

definition float_max :: real where
  "float_max = (2 ^ 53 - 1) * 2 ^ 971"

definition py_pow :: "pyfloat \<Rightarrow> nat \<Rightarrow> error + pyfloat" where
  "py_pow x i =
     (if i = 0 then Inr (Fin 1)
      else case x of
             Fin r \<Rightarrow> (if float_max < \<bar>r ^ i\<bar> then Inl OverflowError else Inr (Fin (r ^ i)))
           | PInf \<Rightarrow> Inr PInf
           | NInf \<Rightarrow> Inr (if odd i then NInf else PInf)
           | NaN \<Rightarrow> Inr NaN)"

text \<open>\<^verbatim>\<open>np.log10\<close>: no exception, the out-of-domain values are NaN and -inf.\<close>

definition np_log10 :: "pyfloat \<Rightarrow> pyfloat" where
  "np_log10 x =
     (case x of
        Fin r \<Rightarrow> (if 0 < r then Fin (log 10 r) else if r = 0 then NInf else NaN)
      | PInf \<Rightarrow> PInf
      | NInf \<Rightarrow> NaN
      | NaN \<Rightarrow> NaN)"

text \<open>\<^verbatim>\<open>x ** y\<close> with a numpy float exponent (the C library's \<^verbatim>\<open>pow\<close>): no exception.\<close>

definition is_integral :: "real \<Rightarrow> bool" where
  "is_integral y = (y = of_int \<lfloor>y\<rfloor>)"

definition np_power :: "pyfloat \<Rightarrow> pyfloat \<Rightarrow> pyfloat" where
  "np_power x y =
     (if y = Fin 0 \<or> x = Fin 1 then Fin 1
      else case (x, y) of
             (NaN, _) \<Rightarrow> NaN
           | (_, NaN) \<Rightarrow> NaN
           | (Fin a, Fin b) \<Rightarrow>
               (if a = 0 then (if 0 < b then Fin 0 else PInf)
                else if 0 < a then Fin (a powr b)
                else if is_integral b then
                  (if even \<lfloor>b\<rfloor> then Fin (\<bar>a\<bar> powr b) else Fin (- (\<bar>a\<bar> powr b)))
                else NaN)
           | (Fin a, PInf) \<Rightarrow> (if a = - 1 then Fin 1 else if \<bar>a\<bar> < 1 then Fin 0 else PInf)
           | (Fin a, NInf) \<Rightarrow> (if a = - 1 then Fin 1 else if \<bar>a\<bar> < 1 then PInf else Fin 0)
           | (PInf, Fin b) \<Rightarrow> (if 0 < b then PInf else Fin 0)
           | (NInf, Fin b) \<Rightarrow>
               (if 0 < b then (if is_integral b \<and> odd \<lfloor>b\<rfloor> then NInf else PInf) else Fin 0)
           | (_, PInf) \<Rightarrow> PInf
           | (_, NInf) \<Rightarrow> Fin 0)"

section \<open>Python strings\<close>

text \<open>\<^verbatim>\<open>s.split(sep)\<close> for a one-character separator: at least one field.\<close>

fun py_split :: "char \<Rightarrow> string \<Rightarrow> string list" where
  "py_split sep [] = [[]]"
| "py_split sep (c # cs) =
     (if c = sep then [] # py_split sep cs
      else case py_split sep cs of
             [] \<Rightarrow> [[c]]
           | f # fs \<Rightarrow> (c # f) # fs)"

text \<open>\<^verbatim>\<open>s.strip(chars)\<close>, \<^verbatim>\<open>s.rstrip(chars)\<close>, \<^verbatim>\<open>s.replace(c, "")\<close>,
  \<^verbatim>\<open>sep.join(xs)\<close>, \<^verbatim>\<open>s.lower()\<close>, \<^verbatim>\<open>p in s\<close>, \<^verbatim>\<open>s.startswith(p)\<close>.\<close>

definition py_rstrip :: "string \<Rightarrow> string \<Rightarrow> string" where
  "py_rstrip chars s = rev (dropWhile (\<lambda>c. c \<in> set chars) (rev s))"

definition py_strip :: "string \<Rightarrow> string \<Rightarrow> string" where
  "py_strip chars s = py_rstrip chars (dropWhile (\<lambda>c. c \<in> set chars) s)"

definition py_remove :: "char \<Rightarrow> string \<Rightarrow> string" where
  "py_remove c s = filter (\<lambda>d. d \<noteq> c) s"

fun py_join :: "string \<Rightarrow> string list \<Rightarrow> string" where
  "py_join sep [] = []"
| "py_join sep [x] = x"
| "py_join sep (x # y # ys) = x @ sep @ py_join sep (y # ys)"

definition lower_char :: "char \<Rightarrow> char" where
  "lower_char c =
     (if 65 \<le> (of_char c :: nat) \<and> (of_char c :: nat) \<le> 90
      then char_of (of_char c + 32 :: nat) else c)"

definition py_lower :: "string \<Rightarrow> string" where
  "py_lower s = map lower_char s"

fun startswith :: "string \<Rightarrow> string \<Rightarrow> bool" where
  "startswith s [] = True"
| "startswith [] (p # ps) = False"
| "startswith (c # cs) (p # ps) = (c = p \<and> startswith cs ps)"

fun py_in :: "string \<Rightarrow> string \<Rightarrow> bool" where
  "py_in p [] = (p = [])"
| "py_in p (c # cs) = (startswith (c # cs) p \<or> py_in p cs)"

subsection \<open>\<^verbatim>\<open>int(s)\<close> and \<^verbatim>\<open>float(s)\<close>\<close>

definition is_space :: "char \<Rightarrow> bool" where
  "is_space c = ((9 \<le> (of_char c :: nat) \<and> (of_char c :: nat) \<le> 13) \<or> c = CHR '' '')"

definition is_digit :: "char \<Rightarrow> bool" where
  "is_digit c = (48 \<le> (of_char c :: nat) \<and> (of_char c :: nat) \<le> 57)"

definition digit_val :: "char \<Rightarrow> nat" where
  "digit_val c = of_char c - 48"

definition digits_val :: "string \<Rightarrow> nat" where
  "digits_val ds = foldl (\<lambda>a c. 10 * a + digit_val c) 0 ds"

definition strip_space :: "string \<Rightarrow> string" where
  "strip_space s = rev (dropWhile is_space (rev (dropWhile is_space s)))"

text \<open>An underscore is accepted only between two digits; \<open>prev\<close> is the character
  before, \<open>CHR 0x00\<close> at the start.\<close>

fun underscores_ok :: "char \<Rightarrow> string \<Rightarrow> bool" where
  "underscores_ok prev [] = (prev \<noteq> CHR ''_'')"
| "underscores_ok prev (c # cs) =
     ((if c = CHR ''_'' then is_digit prev
       else if prev = CHR ''_'' then is_digit c
       else True)
      \<and> underscores_ok c cs)"

definition parse_sign :: "string \<Rightarrow> bool \<times> string" where
  "parse_sign s =
     (case s of
        [] \<Rightarrow> (False, [])
      | c # cs \<Rightarrow>
          if c = CHR ''-'' then (True, cs)
          else if c = CHR ''+'' then (False, cs)
          else (False, s))"

definition py_int :: "string \<Rightarrow> error + int" where
  "py_int s =
     (if underscores_ok (CHR 0x00) s then
        (let (neg, ds) = parse_sign (strip_space (py_remove (CHR ''_'') s))
         in if ds \<noteq> [] \<and> list_all is_digit ds
            then Inr (if neg then - int (digits_val ds) else int (digits_val ds))
            else Inl (ValueError []))
      else Inl (ValueError []))"

definition scale10 :: "real \<Rightarrow> int \<Rightarrow> real" where
  "scale10 m k = (if 0 \<le> k then m * 10 ^ nat k else m / 10 ^ nat (- k))"

text \<open>What follows the mantissa: nothing, or \<^verbatim>\<open>e\<close>, an optional sign and digits.\<close>

definition parse_exponent :: "string \<Rightarrow> int option" where
  "parse_exponent s =
     (case s of
        [] \<Rightarrow> Some 0
      | c # cs \<Rightarrow>
          if c = CHR ''e'' \<or> c = CHR ''E'' then
            (let (neg, ds) = parse_sign cs
             in if ds \<noteq> [] \<and> list_all is_digit ds
                then Some (if neg then - int (digits_val ds) else int (digits_val ds))
                else None)
          else None)"

definition parse_decimal :: "string \<Rightarrow> real option" where
  "parse_decimal s =
     (let ip = takeWhile is_digit s;
          r1 = dropWhile is_digit s;
          (fp, r2) = (case r1 of
                        [] \<Rightarrow> ([], [])
                      | c # cs \<Rightarrow>
                          if c = CHR ''.'' then (takeWhile is_digit cs, dropWhile is_digit cs)
                          else ([], r1))
      in if ip = [] \<and> fp = [] then None
         else case parse_exponent r2 of
                None \<Rightarrow> None
              | Some e \<Rightarrow> Some (scale10 (real (digits_val (ip @ fp))) (e - int (length fp))))"

definition py_float :: "string \<Rightarrow> error + pyfloat" where
  "py_float s =
     (if underscores_ok (CHR 0x00) s then
        (let (neg, u) = parse_sign (strip_space (py_remove (CHR ''_'') s));
             l = py_lower u
         in if l = ''inf'' \<or> l = ''infinity'' then Inr (if neg then NInf else PInf)
            else if l = ''nan'' then Inr NaN
            else case parse_decimal u of
                   None \<Rightarrow> Inl (ValueError [])
                 | Some r \<Rightarrow> Inr (Fin (if neg then - r else r)))
      else Inl (ValueError []))"

section \<open>Coordinates\<close>

definition parse_right_ascension :: "string \<Rightarrow> error + pyfloat" where
  "parse_right_ascension right_ascension_string =
     (case py_split (CHR '':'') (py_strip '' '' right_ascension_string) of
        [HA, mn, sec] \<Rightarrow>
          (case HA of
             [] \<Rightarrow> Inl IndexError
           | c # _ \<Rightarrow>
               and_then (py_int HA) (\<lambda>h.
               and_then (py_int mn) (\<lambda>m.
               and_then (py_float sec) (\<lambda>s.
                 Inr (pf_mul (Fin (if c = CHR ''-'' then - 1 else 1))
                        (pf_add (Fin (of_int (\<bar>h\<bar> * 15) + of_int m / 4))
                                (pf_quot s (Fin 240))))))))
      | _ \<Rightarrow> Inl (ValueError []))"

definition parse_declination :: "string \<Rightarrow> error + pyfloat" where
  "parse_declination declination_string =
     (let fields = py_split (CHR ''.'')
                     (py_strip ''+'' (py_remove (CHR '' '') declination_string))
      in and_then (py_int (hd fields)) (\<lambda>deg.
         and_then (if length fields < 2 then Inl IndexError else py_int (fields ! 1)) (\<lambda>mn.
         and_then (py_float (py_join ''.'' (drop 2 fields))) (\<lambda>sec.
           Inr (pf_mul (Fin (of_int (sgn deg)))
                  (pf_add (Fin (of_int \<bar>deg\<bar> + of_int mn / 60))
                          (pf_quot sec (Fin 3600))))))))"

section \<open>Brightness models\<close>

text \<open>\<^verbatim>\<open>frequency / reference_frequency\<close>: a string divisor is a type error.\<close>

definition py_truediv :: "pyfloat \<Rightarrow> pyval \<Rightarrow> error + pyfloat" where
  "py_truediv a b = (case b of VStr _ \<Rightarrow> Inl TypeError | VFloat f \<Rightarrow> pf_truediv a f)"

text \<open>\<^verbatim>\<open>sum(float(c) * p(i) for i, c in enumerate(spectral_index))\<close>: the terms are made one
  by one, each with \<^verbatim>\<open>float(c)\<close> before the power \<open>p i\<close>, so the first conversion or power
  that raises ends the sum; \<open>acc\<close> starts at 0.\<close>

fun sum_terms ::
  "(nat \<Rightarrow> error + pyfloat) \<Rightarrow> pyfloat \<Rightarrow> nat \<Rightarrow> string list \<Rightarrow> error + pyfloat" where
  "sum_terms p acc i [] = Inr acc"
| "sum_terms p acc i (c # cs) =
     and_then (py_float c) (\<lambda>f.
     and_then (p i) (\<lambda>y.
       sum_terms p (pf_add acc (pf_mul f y)) (Suc i) cs))"

definition logarithmic_spectral_index_brightness ::
  "pyfloat \<Rightarrow> pyfloat \<Rightarrow> pyval \<Rightarrow> string \<Rightarrow> error + pyfloat" where
  "logarithmic_spectral_index_brightness frequency brightness reference_frequency spectral_index =
     (let coefficients = py_split (CHR '','') (py_strip ''[]'' spectral_index)
      in and_then (py_truediv frequency reference_frequency) (\<lambda>x.
         and_then (sum_terms (\<lambda>i. Inr (np_pow (np_log10 x) i)) (Fin 0) 0 coefficients)
           (\<lambda>exponent.
           Inr (pf_mul brightness (np_power x exponent)))))"

definition linear_spectral_index_brightness ::
  "pyfloat \<Rightarrow> pyfloat \<Rightarrow> pyval \<Rightarrow> string \<Rightarrow> error + pyfloat" where
  "linear_spectral_index_brightness frequency brightness reference_frequency spectral_index =
     (let coefficients = py_split (CHR '','') (py_strip ''[]'' spectral_index)
      in and_then (py_truediv frequency reference_frequency) (\<lambda>q.
         let x = pf_add q (Fin (- 1))
         in and_then (sum_terms (\<lambda>i. py_pow x i) (Fin 0) 0 coefficients) (\<lambda>spectral_shape.
              Inr (pf_add brightness spectral_shape))))"

section \<open>Sources and patches\<close>

text \<open>A \<^verbatim>\<open>Source\<close> keeps its position and, inside the closure \<^verbatim>\<open>self.I\<close>, the four values
  the brightness function is computed from; the closure is the record's last four fields
  and \<open>Source_I\<close> applies it.\<close>

record Source =
  src_ra :: pyfloat
  src_dec :: pyfloat
  src_brightness :: pyfloat
  src_reference_frequency :: pyval
  src_spectral_index :: string
  src_logSI :: bool

definition Source_init ::
  "string \<Rightarrow> string \<Rightarrow> pyfloat \<Rightarrow> pyval \<Rightarrow> string \<Rightarrow> bool \<Rightarrow> error + Source" where
  "Source_init right_ascension declination brightness reference_frequency spectral_index logSI =
     and_then (parse_right_ascension right_ascension) (\<lambda>r.
     and_then (parse_declination declination) (\<lambda>d.
       Inr \<lparr>src_ra = r, src_dec = d, src_brightness = brightness,
            src_reference_frequency = reference_frequency,
            src_spectral_index = spectral_index, src_logSI = logSI\<rparr>))"

definition Source_I :: "Source \<Rightarrow> pyfloat \<Rightarrow> error + pyfloat" where
  "Source_I s v =
     (if src_logSI s
      then logarithmic_spectral_index_brightness v (src_brightness s)
             (src_reference_frequency s) (src_spectral_index s)
      else linear_spectral_index_brightness v (src_brightness s)
             (src_reference_frequency s) (src_spectral_index s))"

text \<open>A Python dict is an association list in insertion order; assigning to a key that is
  present replaces its value in place.\<close>

fun dict_set :: "'k \<Rightarrow> 'v \<Rightarrow> ('k \<times> 'v) list \<Rightarrow> ('k \<times> 'v) list" where
  "dict_set k v [] = [(k, v)]"
| "dict_set k v ((k', v') # kvs) =
     (if k = k' then (k, v) # kvs else (k', v') # dict_set k v kvs)"

record Patch =
  patch_elements :: "(string \<times> Source) list"
  patch_ra :: pyfloat
  patch_dec :: pyfloat

definition Patch_init :: "string \<Rightarrow> string \<Rightarrow> error + Patch" where
  "Patch_init patch_right_ascension patch_declination =
     and_then (parse_right_ascension patch_right_ascension) (\<lambda>r.
     and_then (parse_declination patch_declination) (\<lambda>d.
       Inr \<lparr>patch_elements = [], patch_ra = r, patch_dec = d\<rparr>))"

definition add_source ::
  "Patch \<Rightarrow> string \<Rightarrow> string \<Rightarrow> string \<Rightarrow> pyfloat \<Rightarrow> pyval \<Rightarrow> string \<Rightarrow> bool \<Rightarrow> error + Patch" where
  "add_source patch source_name right_ascension declination brightness reference_frequency
       spectral_index logSI =
     and_then (Source_init right_ascension declination brightness reference_frequency
                 spectral_index logSI) (\<lambda>s.
       Inr (patch\<lparr>patch_elements := dict_set source_name s (patch_elements patch)\<rparr>))"

section \<open>The sky model\<close>

text \<open>\<^verbatim>\<open>self.items\<close> maps an item name to the index of its column; the entry
  \<^verbatim>\<open>default_referencefrequency\<close> holds a float instead.\<close>

datatype item = Idx nat | Flt pyfloat

type_synonym items = "(string \<times> item) list"

type_synonym catalog = "(string \<times> Patch) list"

definition list_of_itemnames :: "string list" where
  "list_of_itemnames =
     [''name'', ''patch'', ''ra'', ''dec'', ''i'', ''referencefrequency'',
      ''spectralindex'', ''logarithmicsi'']"

text \<open>\<^verbatim>\<open>fields.index(x)\<close> for an \<open>x\<close> that is in \<open>fields\<close>.\<close>

fun index_of :: "'a \<Rightarrow> 'a list \<Rightarrow> nat" where
  "index_of x [] = 0"
| "index_of x (y # ys) = (if x = y then 0 else Suc (index_of x ys))"

text \<open>The default reference frequency: what follows the one \<^verbatim>\<open>=\<close> of the header cell,
  reduced to its digits, \<^verbatim>\<open>e\<close> and \<^verbatim>\<open>-\<close>.\<close>

definition default_reference_frequency :: "string \<Rightarrow> error + pyfloat" where
  "default_reference_frequency matching_string =
     (case py_split (CHR ''='') matching_string of
        [_, d] \<Rightarrow> py_float (filter (\<lambda>i. is_digit i \<or> i = CHR ''e'' \<or> i = CHR ''-'') d)
      | _ \<Rightarrow> Inl (ValueError []))"

fun parse_items :: "string list \<Rightarrow> string list \<Rightarrow> items \<Rightarrow> error + items" where
  "parse_items flds [] items = Inr items"
| "parse_items flds (itemname # rest) items =
     (case find (py_in itemname) flds of
        None \<Rightarrow>
          if itemname = ''spectralindex'' \<or> itemname = ''logarithmicsi''
          then parse_items flds rest items
          else Inl (KeyError (''Item '' @ itemname @ '' missing from sky model''))
      | Some matching_string \<Rightarrow>
          (let items1 = dict_set itemname (Idx (index_of matching_string flds)) items
           in if itemname = ''referencefrequency''
              then and_then (default_reference_frequency matching_string) (\<lambda>d.
                     parse_items flds rest
                       (dict_set ''default_referencefrequency'' (Flt d) items1))
              else parse_items flds rest items1))"

definition parse_formatstring :: "string \<Rightarrow> error + items" where
  "parse_formatstring string =
     parse_items (py_split (CHR '','') (py_remove (CHR '' '') (py_lower string)))
       list_of_itemnames []"

text \<open>\<^verbatim>\<open>get_item\<close>: a missing key and a float used as list index raise; only a column
  beyond the end of the row gives the empty string.\<close>

definition get_item :: "items \<Rightarrow> string list \<Rightarrow> string \<Rightarrow> error + string" where
  "get_item items inputfields itemname =
     (case map_of items itemname of
        None \<Rightarrow> Inl (KeyError itemname)
      | Some (Flt _) \<Rightarrow> Inl TypeError
      | Some (Idx k) \<Rightarrow>
          if k < length inputfields then Inr (py_strip '' '' (inputfields ! k)) else Inr [])"

definition reference_frequency_of :: "items \<Rightarrow> string list \<Rightarrow> error + pyval" where
  "reference_frequency_of items inputfields =
     and_then (get_item items inputfields ''referencefrequency'') (\<lambda>s.
       case py_float s of
         Inr f \<Rightarrow> Inr (VFloat f)
       | Inl (ValueError _) \<Rightarrow>
           and_then (get_item items inputfields ''default_referencefrequency'') (\<lambda>d.
             Inr (VStr d))
       | Inl e \<Rightarrow> Inl e)"

definition logSI_of :: "items \<Rightarrow> string list \<Rightarrow> error + bool" where
  "logSI_of items inputfields =
     (case get_item items inputfields ''logarithmicsi'' of
        Inr s \<Rightarrow> Inr (s = ''true'')
      | Inl (KeyError _) \<Rightarrow> Inr True
      | Inl e \<Rightarrow> Inl e)"

text \<open>One turn of the loop over the lines of the file, on the dict of patches so far:
  \<open>skip_line\<close> is the test for comments and empty lines, \<open>process_fields\<close> the rest of
  the loop body, from \<^verbatim>\<open>patch_name = get_item("patch")\<close> on.\<close>

definition skip_line :: "string \<Rightarrow> bool" where
  "skip_line inputline = (startswith inputline ''#'' \<or> py_remove (CHR '','') inputline = [])"

definition process_fields :: "items \<Rightarrow> catalog \<Rightarrow> string list \<Rightarrow> error + catalog" where
  "process_fields items elements inputfields =
     and_then (get_item items inputfields ''patch'') (\<lambda>patch_name.
       case map_of elements patch_name of
         None \<Rightarrow>
           and_then (get_item items inputfields ''i'') (\<lambda>i.
             if i \<noteq> []
             then Inl (ValueError (''Patch '' @ patch_name
                         @ '' has not been defined before adding sources.''))
             else
               and_then (get_item items inputfields ''ra'') (\<lambda>r.
               and_then (get_item items inputfields ''dec'') (\<lambda>d.
               and_then (Patch_init r d) (\<lambda>p.
                 Inr (dict_set patch_name p elements)))))
       | Some patch \<Rightarrow>
           and_then (reference_frequency_of items inputfields) (\<lambda>reference_frequency.
           and_then (logSI_of items inputfields) (\<lambda>logSI.
           and_then (get_item items inputfields ''name'') (\<lambda>source_name.
           and_then (get_item items inputfields ''ra'') (\<lambda>r.
           and_then (get_item items inputfields ''dec'') (\<lambda>d.
           and_then (and_then (get_item items inputfields ''i'') py_float) (\<lambda>brightness.
           and_then (get_item items inputfields ''spectralindex'') (\<lambda>spectral_index.
           and_then (add_source patch source_name r d brightness reference_frequency
                       spectral_index logSI) (\<lambda>patch'.
             Inr (dict_set patch_name patch' elements))))))))))"

definition process_line :: "items \<Rightarrow> catalog \<Rightarrow> string \<Rightarrow> error + catalog" where
  "process_line items elements line =
     (let inputline = py_rstrip ''\<newline>'' line
      in if skip_line inputline then Inr elements
         else process_fields items elements (py_split (CHR '','') inputline))"

fun process_lines :: "items \<Rightarrow> catalog \<Rightarrow> string list \<Rightarrow> error + catalog" where
  "process_lines items elements [] = Inr elements"
| "process_lines items elements (line # rest) =
     and_then (process_line items elements line) (\<lambda>elements'.
       process_lines items elements' rest)"

text \<open>\<^verbatim>\<open>Skymodel(filename)\<close> on the lines of the file, as the file object yields them
  (each with its newline): the first is the format string, \<^verbatim>\<open>readline\<close> giving the empty
  string on an empty file.\<close>

record Skymodel =
  sky_elements :: catalog
  sky_items :: items

definition Skymodel_init :: "string list \<Rightarrow> error + Skymodel" where
  "Skymodel_init file_lines =
     and_then (parse_formatstring (case file_lines of [] \<Rightarrow> [] | h # _ \<Rightarrow> h)) (\<lambda>its.
     and_then (process_lines its [] (tl file_lines)) (\<lambda>els.
       Inr \<lparr>sky_elements = els, sky_items = its\<rparr>))"

section \<open>Basic facts\<close>

lemma and_then_Inl [simp]: "and_then (Inl e) f = Inl e"
  by (simp add: and_then_def)

lemma and_then_Inr [simp]: "and_then (Inr x) f = f x"
  by (simp add: and_then_def)

lemma and_then_return [simp]: "and_then m Inr = m"
  by (cases m) simp_all

lemma and_then_eq_Inr:
  "and_then m f = Inr y \<longleftrightarrow> (\<exists>x. m = Inr x \<and> f x = Inr y)"
  by (cases m) simp_all

lemma map_of_dict_set: "map_of (dict_set k v kvs) = (map_of kvs)(k \<mapsto> v)"
  by (induction kvs) auto

lemma map_of_dict_set_same [simp]: "map_of (dict_set k v kvs) k = Some v"
  by (simp add: map_of_dict_set)

lemma process_lines_append:
  "process_lines its els (xs @ ys) =
     and_then (process_lines its els xs) (\<lambda>els'. process_lines its els' ys)"
proof (induction xs arbitrary: els)
  case Nil
  show ?case by simp
next
  case (Cons x xs)
  show ?case
    by (cases "process_line its els x") (simp_all add: Cons.IH)
qed

lemma process_lines_snoc:
  assumes "process_lines its [] before = Inr els"
      and "\<not> skip_line (py_rstrip ''\<newline>'' line)"
  shows "process_lines its [] (before @ [line]) =
           process_fields its els (py_split (CHR '','') (py_rstrip ''\<newline>'' line))"
  using assms by (simp add: process_lines_append process_line_def)

lemma parse_formatstring_items:
  assumes "parse_formatstring header = Inr its"
  shows "(\<exists>n. map_of its ''name'' = Some (Idx n))
       \<and> (\<exists>n. map_of its ''patch'' = Some (Idx n))
       \<and> (\<exists>n. map_of its ''ra'' = Some (Idx n))
       \<and> (\<exists>n. map_of its ''dec'' = Some (Idx n))
       \<and> (\<exists>n. map_of its ''i'' = Some (Idx n))
       \<and> (\<exists>n. map_of its ''referencefrequency'' = Some (Idx n))
       \<and> (\<exists>f. map_of its ''default_referencefrequency'' = Some (Flt f))
       \<and> (map_of its ''spectralindex'' = None \<or> (\<exists>n. map_of its ''spectralindex'' = Some (Idx n)))
       \<and> (map_of its ''logarithmicsi'' = None \<or> (\<exists>n. map_of its ''logarithmicsi'' = Some (Idx n)))"
  using assms
  by (auto simp: parse_formatstring_def list_of_itemnames_def Let_def and_then_eq_Inr
           split: option.splits if_splits)

lemma get_item_Idx:
  "map_of its k = Some (Idx n) \<Longrightarrow> \<exists>s. get_item its flds k = Inr s"
  by (simp add: get_item_def)

lemma get_item_Flt:
  "map_of its k = Some (Flt f) \<Longrightarrow> get_item its flds k = Inl TypeError"
  by (simp add: get_item_def)

lemma get_item_None:
  "map_of its k = None \<Longrightarrow> get_item its flds k = Inl (KeyError k)"
  by (simp add: get_item_def)

lemma py_float_error: "py_float s = Inl e \<Longrightarrow> e = ValueError []"
  by (auto simp: py_float_def Let_def split: if_splits prod.splits option.splits)

lemma default_reference_frequency_error:
  "default_reference_frequency s = Inl e \<Longrightarrow> e = ValueError []"
  by (auto simp: default_reference_frequency_def dest: py_float_error split: list.splits)

lemma Skymodel_init_row_error:
  assumes "parse_formatstring header = Inr its"
      and "process_lines its [] before = Inr els"
      and "\<not> skip_line (py_rstrip ''\<newline>'' line)"
      and "process_fields its els (py_split (CHR '','') (py_rstrip ''\<newline>'' line)) = Inl e"
  shows "Skymodel_init (header # before @ line # after) = Inl e"
  using assms
  by (simp add: Skymodel_init_def process_lines_append process_line_def)

lemma reference_frequency_of_default:
  assumes "parse_formatstring header = Inr its"
      and "get_item its inputfields ''referencefrequency'' = Inr s"
      and "py_float s = Inl e"
  shows "reference_frequency_of its inputfields = Inl TypeError"
proof -
  obtain f where "map_of its ''default_referencefrequency'' = Some (Flt f)"
    using parse_formatstring_items [OF assms(1)] by blast
  then have "get_item its inputfields ''default_referencefrequency'' = Inl TypeError"
    by (rule get_item_Flt)
  moreover have "e = ValueError []"
    using assms(3) by (rule py_float_error)
  ultimately show ?thesis
    using assms(2,3) by (simp add: reference_frequency_of_def)
qed

lemma logSI_of_total:
  assumes "map_of its ''logarithmicsi'' = None
         \<or> (\<exists>n. map_of its ''logarithmicsi'' = Some (Idx n))"
  shows "\<exists>l. logSI_of its flds = Inr l"
  using assms by (auto simp: logSI_of_def get_item_def)

lemma Source_init_fields:
  assumes "Source_init r d b rf si l = Inr s"
  shows "src_brightness s = b \<and> src_reference_frequency s = rf
       \<and> src_spectral_index s = si \<and> src_logSI s = l"
  using assms by (auto simp: Source_init_def and_then_eq_Inr)

lemma source_row_result:
  assumes "get_item its flds ''patch'' = Inr pn"
      and "map_of els pn = Some patch"
      and "get_item its flds ''name'' = Inr nm"
      and "process_fields its els flds = Inr els'"
  shows "\<exists>patch' s rf l si.
           map_of els' pn = Some patch' \<and> map_of (patch_elements patch') nm = Some s
         \<and> reference_frequency_of its flds = Inr rf \<and> src_reference_frequency s = rf
         \<and> logSI_of its flds = Inr l \<and> src_logSI s = l
         \<and> get_item its flds ''spectralindex'' = Inr si \<and> src_spectral_index s = si"
  using assms
  by (auto simp: process_fields_def and_then_eq_Inr add_source_def dest!: Source_init_fields)

lemma Source_I_first_bad:
  assumes "py_split (CHR '','') (py_strip ''[]'' (src_spectral_index s)) = c # cs"
      and "py_float c = Inl e"
  shows "Source_I s v =
           (case py_truediv v (src_reference_frequency s) of
              Inl e' \<Rightarrow> Inl e'
            | Inr x \<Rightarrow> Inl (ValueError []))"
proof (cases "py_truediv v (src_reference_frequency s)")
  case (Inl e')
  then show ?thesis
    by (simp add: Source_I_def logarithmic_spectral_index_brightness_def
        linear_spectral_index_brightness_def)
next
  case (Inr x)
  have "py_float c = Inl (ValueError [])"
    using assms(2) py_float_error [OF assms(2)] by simp
  then show ?thesis
    using Inr assms(1)
    by (simp add: Source_I_def logarithmic_spectral_index_brightness_def
        linear_spectral_index_brightness_def Let_def)
qed

lemma py_split_no_sep: "sep \<notin> set s \<Longrightarrow> py_split sep s = [s]"
  by (induction s) auto

lemma dropWhile_all: "list_all P s \<Longrightarrow> dropWhile P s = []"
  by (induction s) auto

lemma dropWhile_none: "list_all (\<lambda>c. \<not> P c) s \<Longrightarrow> dropWhile P s = s"
  by (cases s) simp_all

lemma is_space_chars:
  "is_space c \<Longrightarrow> c \<noteq> CHR ''['' \<and> c \<noteq> CHR '']'' \<and> c \<noteq> CHR '','' \<and> c \<noteq> CHR ''_''"
  by (auto simp: is_space_def)

lemma py_float_blank:
  assumes "list_all is_space s"
  shows "py_float s = Inl (ValueError [])"
proof -
  have "list_all is_space (py_remove (CHR ''_'') s)"
    using assms by (simp add: py_remove_def list_all_iff)
  then have "strip_space (py_remove (CHR ''_'') s) = []"
    by (simp add: strip_space_def dropWhile_all)
  then show ?thesis
    by (simp add: py_float_def parse_sign_def py_lower_def parse_decimal_def)
qed

lemma blank_coefficients:
  assumes "list_all is_space s"
  shows "py_split (CHR '','') (py_strip ''[]'' s) = [s]"
proof -
  have "list_all (\<lambda>c. \<not> c \<in> set ''[]'') s"
    using assms is_space_chars by (auto simp: list_all_iff)
  moreover from this have "list_all (\<lambda>c. \<not> c \<in> set ''[]'') (rev s)"
    by (simp add: list_all_iff)
  ultimately have "py_strip ''[]'' s = s"
    by (simp add: py_strip_def py_rstrip_def dropWhile_none)
  moreover have "CHR '','' \<notin> set s"
    using assms is_space_chars by (auto simp: list_all_iff)
  ultimately show ?thesis
    by (simp add: py_split_no_sep)
qed





lemma sum_terms_total:
  assumes "list_all (\<lambda>c. \<not> isl (py_float c)) cs"
  shows "\<exists>y. sum_terms (\<lambda>i. Inr (q i)) acc i cs = Inr y"
  using assms
proof (induction cs arbitrary: acc i)
  case Nil
  show ?case by simp
next
  case (Cons a cs)
  then obtain f where "py_float a = Inr f"
    by (cases "py_float a") auto
  then show ?case using Cons by simp
qed

lemma pf_mul_one: "pf_mul b (Fin 1) = b"
  by (cases b) simp_all

lemma np_power_one: "np_power (Fin 1) y = Fin 1"
  by (simp add: np_power_def)

lemma pf_add_zero_left: "pf_add (Fin 0) y = y"
  by (cases y) simp_all

subsection \<open>A small sky model\<close>

text \<open>The format string, a patch definition and the coordinates used in the examples below.\<close>

lemma example_header:
  "parse_formatstring
     ''Name,Patch,Ra,Dec,I,ReferenceFrequency=60e6,SpectralIndex,LogarithmicSI\<newline>'' =
   Inr [(''name'', Idx 0), (''patch'', Idx 1), (''ra'', Idx 2), (''dec'', Idx 3),
        (''i'', Idx 4), (''referencefrequency'', Idx 5),
        (''default_referencefrequency'', Flt (Fin 60000000)),
        (''spectralindex'', Idx 6), (''logarithmicsi'', Idx 7)]"
  by code_simp

lemma example_patch_line:
  "process_lines
     [(''name'', Idx 0), (''patch'', Idx 1), (''ra'', Idx 2), (''dec'', Idx 3),
      (''i'', Idx 4), (''referencefrequency'', Idx 5),
      (''default_referencefrequency'', Flt (Fin 60000000)),
      (''spectralindex'', Idx 6), (''logarithmicsi'', Idx 7)]
     [] ['',P1,01:00:00,+10.00.00\<newline>''] =
   Inr [(''P1'', \<lparr>patch_elements = [], patch_ra = Fin 15, patch_dec = Fin 10\<rparr>)]"
  by code_simp

lemma example_coordinates:
  "parse_right_ascension ''01:00:00'' = Inr (Fin 15)"
  "parse_declination ''+10.00.00'' = Inr (Fin 10)"
  by code_simp+

lemma linear_example_coefficients:
  "py_split (CHR '','') (py_strip ''[]'' ''[2.0,3.0]'') = [''2.0'', ''3.0'']"
  "py_float ''2.0'' = Inr (Fin 2)"
  "py_float ''3.0'' = Inr (Fin 3)"
  by code_simp+

section \<open>C1: the default reference frequency\<close>

text \<open>
  Claim C1: a source row whose \<^verbatim>\<open>referencefrequency\<close> field is blank or not a number is
  parsed, and its Source gets the default reference frequency of the header.

  The code does not do this. On \<^verbatim>\<open>ValueError\<close> it asks
  \<^verbatim>\<open>get_item("default_referencefrequency")\<close>, and \<^verbatim>\<open>get_item\<close> uses the float stored under
  that key as a list index. Under every format string that parses, every such row of a
  patch defined earlier makes \<^verbatim>\<open>Skymodel\<close> raise \<^verbatim>\<open>TypeError\<close>, whatever follows in the file.
\<close>

theorem default_reference_frequency_raises:
  assumes "parse_formatstring header = Inr its"
      and "process_lines its [] before = Inr els"
      and "\<not> skip_line (py_rstrip ''\<newline>'' line)"
      and "inputfields = py_split (CHR '','') (py_rstrip ''\<newline>'' line)"
      and "get_item its inputfields ''patch'' = Inr patch_name"
      and "map_of els patch_name = Some patch"
      and "get_item its inputfields ''referencefrequency'' = Inr s"
      and "py_float s = Inl e"
  shows "Skymodel_init (header # before @ line # after) = Inl TypeError"
proof -
  have "reference_frequency_of its inputfields = Inl TypeError"
    using assms(1,7,8) by (rule reference_frequency_of_default)
  then have "process_fields its els inputfields = Inl TypeError"
    using assms(5,6) by (simp add: process_fields_def)
  then show ?thesis
    using assms(1-4) Skymodel_init_row_error by blast
qed

theorem default_reference_frequency_raises_witness:
  "Skymodel_init
     [''Name,Patch,Ra,Dec,I,ReferenceFrequency=60e6,SpectralIndex,LogarithmicSI\<newline>'',
      '',P1,01:00:00,+10.00.00\<newline>'',
      ''s1,P1,01:00:00,+10.00.00,2.5,,[0.5],true\<newline>''] = Inl TypeError"
proof -
  have 1: "\<not> skip_line (py_rstrip ''\<newline>'' ''s1,P1,01:00:00,+10.00.00,2.5,,[0.5],true\<newline>'')"
    by code_simp
  have 2: "[''s1'', ''P1'', ''01:00:00'', ''+10.00.00'', ''2.5'', [], ''[0.5]'', ''true'']
           = py_split (CHR '','') (py_rstrip ''\<newline>'' ''s1,P1,01:00:00,+10.00.00,2.5,,[0.5],true\<newline>'')"
    by code_simp
  have 3: "get_item [(''name'', Idx 0), (''patch'', Idx 1), (''ra'', Idx 2), (''dec'', Idx 3),
        (''i'', Idx 4), (''referencefrequency'', Idx 5),
        (''default_referencefrequency'', Flt (Fin 60000000)),
        (''spectralindex'', Idx 6), (''logarithmicsi'', Idx 7)]
        [''s1'', ''P1'', ''01:00:00'', ''+10.00.00'', ''2.5'', [], ''[0.5]'', ''true''] ''patch'' = Inr ''P1''"
    by code_simp
  have 4: "map_of [(''P1'', \<lparr>patch_elements = [], patch_ra = Fin 15, patch_dec = Fin 10\<rparr>)] ''P1''
     = Some \<lparr>patch_elements = [], patch_ra = Fin 15, patch_dec = Fin 10\<rparr>"
    by simp
  have 5: "get_item [(''name'', Idx 0), (''patch'', Idx 1), (''ra'', Idx 2), (''dec'', Idx 3),
        (''i'', Idx 4), (''referencefrequency'', Idx 5),
        (''default_referencefrequency'', Flt (Fin 60000000)),
        (''spectralindex'', Idx 6), (''logarithmicsi'', Idx 7)]
        [''s1'', ''P1'', ''01:00:00'', ''+10.00.00'', ''2.5'', [], ''[0.5]'', ''true''] ''referencefrequency'' = Inr []"
    by code_simp
  have 6: "py_float [] = Inl (ValueError [])"
    by code_simp
  show ?thesis
    using default_reference_frequency_raises [OF example_header example_patch_line 1 2 3 4 5 6, of "[]"]
    by simp
qed

section \<open>C2: an empty spectral index\<close>

text \<open>
  Claim C2: with empty or whitespace-only spectral-index text the brightness of a Source
  does not depend on the frequency (the reference brightness in the logarithmic model, the
  reference brightness plus 0 in the linear model).

  The code does not do this. \<^verbatim>\<open>"".strip("[]").split(",")\<close> is \<^verbatim>\<open>[""]\<close>, one coefficient that
  \<^verbatim>\<open>float\<close> rejects: in both models the brightness function raises \<^verbatim>\<open>ValueError\<close> at every
  frequency, unless the division by the reference frequency has raised before.
\<close>

theorem blank_spectral_index_raises:
  assumes "list_all is_space (src_spectral_index s)"
  shows "Source_I s v =
           (case py_truediv v (src_reference_frequency s) of
              Inl e \<Rightarrow> Inl e
            | Inr x \<Rightarrow> Inl (ValueError []))"
proof -
  have "py_split (CHR '','') (py_strip ''[]'' (src_spectral_index s)) = [src_spectral_index s]"
    using assms by (rule blank_coefficients)
  moreover have "py_float (src_spectral_index s) = Inl (ValueError [])"
    using assms by (rule py_float_blank)
  ultimately show ?thesis by (rule Source_I_first_bad)
qed

theorem blank_spectral_index_raises_witness:
  "Source_I \<lparr>src_ra = Fin 15, src_dec = Fin 10, src_brightness = Fin (5 / 2),
             src_reference_frequency = VFloat (Fin 100), src_spectral_index = [],
             src_logSI = True\<rparr> (Fin 150) = Inl (ValueError [])
 \<and> Source_I \<lparr>src_ra = Fin 15, src_dec = Fin 10, src_brightness = Fin (5 / 2),
             src_reference_frequency = VFloat (Fin 100), src_spectral_index = ''  '',
             src_logSI = False\<rparr> (Fin 150) = Inl (ValueError [])"
proof -
  have 1: "list_all is_space []" by simp
  have 2: "list_all is_space ''  ''" by (simp add: is_space_def)
  have 3: "py_truediv (Fin 150) (VFloat (Fin 100)) = Inr (Fin (3 / 2))"
    by (simp add: py_truediv_def pf_truediv_def)
  show ?thesis
    using blank_spectral_index_raises [of "\<lparr>src_ra = Fin 15, src_dec = Fin 10, src_brightness = Fin (5 / 2),
             src_reference_frequency = VFloat (Fin 100), src_spectral_index = [],
             src_logSI = True\<rparr>" "Fin 150"]
       blank_spectral_index_raises [of "\<lparr>src_ra = Fin 15, src_dec = Fin 10, src_brightness = Fin (5 / 2),
             src_reference_frequency = VFloat (Fin 100), src_spectral_index = ''  '',
             src_logSI = False\<rparr>" "Fin 150"] 1 2 3
    by simp
qed

section \<open>C3: columns missing from the format string\<close>

text \<open>
  Claim C3: the format string is rejected exactly when one of \<^verbatim>\<open>name\<close>, \<^verbatim>\<open>patch\<close>, \<^verbatim>\<open>ra\<close>,
  \<^verbatim>\<open>dec\<close>, \<^verbatim>\<open>i\<close>, \<^verbatim>\<open>referencefrequency\<close> has no column, before any row is read; a missing
  \<^verbatim>\<open>spectralindex\<close> or \<^verbatim>\<open>logarithmicsi\<close> column is tolerated, and the source rows of such a
  file still parse.

  The last part fails for \<^verbatim>\<open>spectralindex\<close>: \<^verbatim>\<open>parse_formatstring\<close> accepts the format string,
  but \<^verbatim>\<open>get_item("spectralindex")\<close> raises \<^verbatim>\<open>KeyError\<close> on the first source row, where the
  same \<^verbatim>\<open>KeyError\<close> for \<^verbatim>\<open>logarithmicsi\<close> is caught. The file below has no
  \<^verbatim>\<open>SpectralIndex\<close> column and is otherwise well formed.
\<close>

theorem missing_spectralindex_column:
  "Skymodel_init
     [''Name,Patch,Ra,Dec,I,ReferenceFrequency=60e6,LogarithmicSI\<newline>'',
      '',P1,01:00:00,+10.00.00\<newline>'',
      ''s1,P1,01:00:00,+10.00.00,2.5,100,true\<newline>''] = Inl (KeyError ''spectralindex'')"
  by code_simp

text \<open>The other parts of the claim hold: a required item without a column is the one
  reason for the \<^verbatim>\<open>KeyError\<close> of \<^verbatim>\<open>parse_formatstring\<close>, no row is read then, and a missing
  \<^verbatim>\<open>logarithmicsi\<close> column leaves source rows readable.\<close>

lemma parse_formatstring_KeyError_iff:
  "(\<exists>m. parse_formatstring string = Inl (KeyError m)) \<longleftrightarrow>
   (\<exists>itemname \<in> {''name'', ''patch'', ''ra'', ''dec'', ''i'', ''referencefrequency''}.
      find (py_in itemname)
        (py_split (CHR '','') (py_remove (CHR '' '') (py_lower string))) = None)"
  by (auto simp: parse_formatstring_def list_of_itemnames_def Let_def and_then_def
           dest: default_reference_frequency_error
           split: option.splits sum.splits)

lemma Skymodel_init_header_error:
  "parse_formatstring header = Inl e \<Longrightarrow> Skymodel_init (header # rows) = Inl e"
  by (simp add: Skymodel_init_def)

lemma missing_logarithmicsi_column:
  "Skymodel_init
     [''Name,Patch,Ra,Dec,I,ReferenceFrequency=60e6,SpectralIndex\<newline>'',
      '',P1,01:00:00,+10.00.00\<newline>'',
      ''s1,P1,01:00:00,+10.00.00,2.5,100,[0.5]\<newline>''] =
     Inr \<lparr>sky_elements =
            [(''P1'',
              \<lparr>patch_elements =
                 [(''s1'',
                   \<lparr>src_ra = Fin 15, src_dec = Fin 10, src_brightness = Fin (5 / 2),
                      src_reference_frequency = VFloat (Fin 100),
                      src_spectral_index = ''[0.5]'', src_logSI = True\<rparr>)],
                 patch_ra = Fin 15, patch_dec = Fin 10\<rparr>)],
          sky_items =
            [(''name'', Idx 0), (''patch'', Idx 1), (''ra'', Idx 2), (''dec'', Idx 3),
             (''i'', Idx 4), (''referencefrequency'', Idx 5),
             (''default_referencefrequency'', Flt (Fin 60000000)),
             (''spectralindex'', Idx 6)]\<rparr>"
  by code_simp

section \<open>C4: a row that names a new patch\<close>

text \<open>
  Claim C4: for a data row whose \<^verbatim>\<open>patch\<close> field names a patch that is not yet in the sky
  model, a non-empty \<^verbatim>\<open>i\<close> field makes the parse fail with an error that names the patch, and
  no sky model is produced; with an empty \<^verbatim>\<open>i\<close> field a new Patch is made from the \<^verbatim>\<open>ra\<close> and
  \<^verbatim>\<open>dec\<close> fields of the row (the error of a coordinate that does not parse is the result
  otherwise).
\<close>

theorem patch_definition_row:
  assumes "parse_formatstring header = Inr its"
      and "process_lines its [] before = Inr els"
      and "\<not> skip_line (py_rstrip ''\<newline>'' line)"
      and "inputfields = py_split (CHR '','') (py_rstrip ''\<newline>'' line)"
      and "get_item its inputfields ''patch'' = Inr patch_name"
      and "map_of els patch_name = None"
      and "get_item its inputfields ''i'' = Inr i"
      and "get_item its inputfields ''ra'' = Inr r"
      and "get_item its inputfields ''dec'' = Inr d"
  shows "if i \<noteq> []
         then Skymodel_init (header # before @ line # after) =
                Inl (ValueError (''Patch '' @ patch_name
                       @ '' has not been defined before adding sources.''))
         else process_lines its [] (before @ [line]) =
                (case parse_right_ascension r of
                   Inl e \<Rightarrow> Inl e
                 | Inr a \<Rightarrow>
                     (case parse_declination d of
                        Inl e \<Rightarrow> Inl e
                      | Inr b \<Rightarrow>
                          Inr (dict_set patch_name
                                 \<lparr>patch_elements = [], patch_ra = a, patch_dec = b\<rparr> els)))"
proof (cases "i = []")
  case False
  have "process_fields its els inputfields =
          Inl (ValueError (''Patch '' @ patch_name
                 @ '' has not been defined before adding sources.''))"
    using False assms(5-7) by (simp add: process_fields_def)
  then show ?thesis
    using False assms(1-4) Skymodel_init_row_error by simp
next
  case True
  have "process_lines its [] (before @ [line]) = process_fields its els inputfields"
    using assms(2-4) by (simp add: process_lines_snoc)
  also have "\<dots> = and_then (Patch_init r d) (\<lambda>p. Inr (dict_set patch_name p els))"
    using True assms(5-9) by (simp add: process_fields_def)
  finally show ?thesis
    using True by (simp add: Patch_init_def and_then_def split: sum.splits)
qed

theorem patch_definition_row_witness:
  "Skymodel_init
     [''Name,Patch,Ra,Dec,I,ReferenceFrequency=60e6,SpectralIndex,LogarithmicSI\<newline>'',
      ''s1,P1,01:00:00,+10.00.00,2.5,100,[0.5],true\<newline>''] =
     Inl (ValueError ''Patch P1 has not been defined before adding sources.'')
 \<and> process_lines
       [(''name'', Idx 0), (''patch'', Idx 1), (''ra'', Idx 2), (''dec'', Idx 3),
        (''i'', Idx 4), (''referencefrequency'', Idx 5),
        (''default_referencefrequency'', Flt (Fin 60000000)),
        (''spectralindex'', Idx 6), (''logarithmicsi'', Idx 7)]
       [] ['',P1,01:00:00,+10.00.00\<newline>''] =
     Inr [(''P1'', \<lparr>patch_elements = [], patch_ra = Fin 15, patch_dec = Fin 10\<rparr>)]"
proof -
  let ?its = "[(''name'', Idx 0), (''patch'', Idx 1), (''ra'', Idx 2), (''dec'', Idx 3),
        (''i'', Idx 4), (''referencefrequency'', Idx 5),
        (''default_referencefrequency'', Flt (Fin 60000000)),
        (''spectralindex'', Idx 6), (''logarithmicsi'', Idx 7)]"
  let ?src = "''s1,P1,01:00:00,+10.00.00,2.5,100,[0.5],true\<newline>''"
  let ?def = "'',P1,01:00:00,+10.00.00\<newline>''"
  have start: "process_lines ?its [] [] = Inr []" by simp
  have new: "map_of ([] :: catalog) ''P1'' = None" by simp
  have a: "\<not> skip_line (py_rstrip ''\<newline>'' ?src)"
     "get_item ?its (py_split (CHR '','') (py_rstrip ''\<newline>'' ?src)) ''patch'' = Inr ''P1''"
     "get_item ?its (py_split (CHR '','') (py_rstrip ''\<newline>'' ?src)) ''i'' = Inr ''2.5''"
     "get_item ?its (py_split (CHR '','') (py_rstrip ''\<newline>'' ?src)) ''ra'' = Inr ''01:00:00''"
     "get_item ?its (py_split (CHR '','') (py_rstrip ''\<newline>'' ?src)) ''dec'' = Inr ''+10.00.00''"
    by code_simp+
  have b: "\<not> skip_line (py_rstrip ''\<newline>'' ?def)"
     "get_item ?its (py_split (CHR '','') (py_rstrip ''\<newline>'' ?def)) ''patch'' = Inr ''P1''"
     "get_item ?its (py_split (CHR '','') (py_rstrip ''\<newline>'' ?def)) ''i'' = Inr []"
     "get_item ?its (py_split (CHR '','') (py_rstrip ''\<newline>'' ?def)) ''ra'' = Inr ''01:00:00''"
     "get_item ?its (py_split (CHR '','') (py_rstrip ''\<newline>'' ?def)) ''dec'' = Inr ''+10.00.00''"
    by code_simp+
  show ?thesis
    using patch_definition_row [OF example_header start a(1) refl a(2) new a(3,4,5), of "[]"]
          patch_definition_row [OF example_header start b(1) refl b(2) new b(3,4,5), of "[]"]
    by (simp add: example_coordinates)
qed

section \<open>C5: a spectral index that is not a list of numbers\<close>




text \<open>A later entry of the list is never seen as a coefficient: of \<^verbatim>\<open>[0.5,abc]\<close> the Source
  gets \<^verbatim>\<open>[0.5\<close>, the cell \<^verbatim>\<open>abc]\<close> is read as \<^verbatim>\<open>logarithmicsi\<close>, and the brightness is computed
  without error.\<close>

lemma spectral_index_list_is_split:
  "process_lines
     [(''name'', Idx 0), (''patch'', Idx 1), (''ra'', Idx 2), (''dec'', Idx 3),
      (''i'', Idx 4), (''referencefrequency'', Idx 5),
      (''default_referencefrequency'', Flt (Fin 60000000)),
      (''spectralindex'', Idx 6), (''logarithmicsi'', Idx 7)]
     [] ['',P1,01:00:00,+10.00.00\<newline>'',
         ''s1,P1,01:00:00,+10.00.00,2.5,100,[0.5,abc],true\<newline>''] =
     Inr [(''P1'',
           \<lparr>patch_elements =
              [(''s1'',
                \<lparr>src_ra = Fin 15, src_dec = Fin 10, src_brightness = Fin (5 / 2),
                   src_reference_frequency = VFloat (Fin 100),
                   src_spectral_index = ''[0.5'', src_logSI = False\<rparr>)],
              patch_ra = Fin 15, patch_dec = Fin 10\<rparr>)]
 \<and> Source_I \<lparr>src_ra = Fin 15, src_dec = Fin 10, src_brightness = Fin (5 / 2),
               src_reference_frequency = VFloat (Fin 100),
               src_spectral_index = ''[0.5'', src_logSI = False\<rparr> (Fin 150) = Inr (Fin 3)"
proof -
  have "linear_spectral_index_brightness (Fin 150) (Fin (5 / 2)) (VFloat (Fin 100)) ''[0.5''
          = Inr (Fin 3)"
    by code_simp
  then have "Source_I \<lparr>src_ra = Fin 15, src_dec = Fin 10, src_brightness = Fin (5 / 2),
               src_reference_frequency = VFloat (Fin 100),
               src_spectral_index = ''[0.5'', src_logSI = False\<rparr> (Fin 150) = Inr (Fin 3)"
    by (simp add: Source_I_def)
  moreover have "process_lines
     [(''name'', Idx 0), (''patch'', Idx 1), (''ra'', Idx 2), (''dec'', Idx 3),
      (''i'', Idx 4), (''referencefrequency'', Idx 5),
      (''default_referencefrequency'', Flt (Fin 60000000)),
      (''spectralindex'', Idx 6), (''logarithmicsi'', Idx 7)]
     [] ['',P1,01:00:00,+10.00.00\<newline>'',
         ''s1,P1,01:00:00,+10.00.00,2.5,100,[0.5,abc],true\<newline>''] =
     Inr [(''P1'',
           \<lparr>patch_elements =
              [(''s1'',
                \<lparr>src_ra = Fin 15, src_dec = Fin 10, src_brightness = Fin (5 / 2),
                   src_reference_frequency = VFloat (Fin 100),
                   src_spectral_index = ''[0.5'', src_logSI = False\<rparr>)],
              patch_ra = Fin 15, patch_dec = Fin 10\<rparr>)]"
    by code_simp
  ultimately show ?thesis by simp
qed

section \<open>C6: the flag \<^verbatim>\<open>logSI\<close>\<close>

text \<open>
  Claim C6: \<^verbatim>\<open>logSI\<close> is true exactly when the \<^verbatim>\<open>logarithmicsi\<close> field equals \<^verbatim>\<open>true\<close> without
  regard to case, and it is true when the format string has no such column.

  The comparison of the code is \<^verbatim>\<open>get_item("logarithmicsi") == "true"\<close>, with the case as
  written: the row below has \<^verbatim>\<open>True\<close> and its Source has \<^verbatim>\<open>logSI = False\<close>.
\<close>

theorem logSI_counterexample:
  "Skymodel_init
     [''Name,Patch,Ra,Dec,I,ReferenceFrequency=60e6,SpectralIndex,LogarithmicSI\<newline>'',
      '',P1,01:00:00,+10.00.00\<newline>'',
      ''s1,P1,01:00:00,+10.00.00,2.5,100,[0.5],True\<newline>''] =
     Inr \<lparr>sky_elements =
            [(''P1'',
              \<lparr>patch_elements =
                 [(''s1'',
                   \<lparr>src_ra = Fin 15, src_dec = Fin 10, src_brightness = Fin (5 / 2),
                      src_reference_frequency = VFloat (Fin 100),
                      src_spectral_index = ''[0.5]'', src_logSI = False\<rparr>)],
                 patch_ra = Fin 15, patch_dec = Fin 10\<rparr>)],
          sky_items =
            [(''name'', Idx 0), (''patch'', Idx 1), (''ra'', Idx 2), (''dec'', Idx 3),
             (''i'', Idx 4), (''referencefrequency'', Idx 5),
             (''default_referencefrequency'', Flt (Fin 60000000)),
             (''spectralindex'', Idx 6), (''logarithmicsi'', Idx 7)]\<rparr>
 \<and> py_lower ''True'' = ''true''"
  by code_simp

text \<open>
  C6 as amended: for a source row that is read, \<^verbatim>\<open>logSI\<close> of its Source is true exactly
  when the \<^verbatim>\<open>logarithmicsi\<close> field, without the spaces around it, is the string \<^verbatim>\<open>true\<close> in
  lower case (a row too short to have the field gives false); when the format string has
  no \<^verbatim>\<open>logarithmicsi\<close> column, \<^verbatim>\<open>logSI\<close> is true.
\<close>

theorem logSI_exact_match:
  assumes "parse_formatstring header = Inr its"
      and "process_lines its [] before = Inr els"
      and "\<not> skip_line (py_rstrip ''\<newline>'' line)"
      and "inputfields = py_split (CHR '','') (py_rstrip ''\<newline>'' line)"
      and "get_item its inputfields ''patch'' = Inr patch_name"
      and "map_of els patch_name = Some patch"
      and "get_item its inputfields ''name'' = Inr source_name"
      and "process_lines its [] (before @ [line]) = Inr els'"
  shows "\<exists>patch' s.
           map_of els' patch_name = Some patch'
         \<and> map_of (patch_elements patch') source_name = Some s
         \<and> src_logSI s =
             (if map_of its ''logarithmicsi'' = None then True
              else get_item its inputfields ''logarithmicsi'' = Inr ''true'')"
proof -
  have "process_fields its els inputfields = Inr els'"
    using assms(2-4,8) by (simp add: process_lines_snoc)
  from source_row_result [OF assms(5-7) this] obtain patch' s l
    where s: "map_of els' patch_name = Some patch'"
             "map_of (patch_elements patch') source_name = Some s"
             "logSI_of its inputfields = Inr l" "src_logSI s = l"
    by auto
  have "l = (if map_of its ''logarithmicsi'' = None then True
             else get_item its inputfields ''logarithmicsi'' = Inr ''true'')"
    using s(3) parse_formatstring_items [OF assms(1)]
    by (auto simp: logSI_of_def get_item_def split: if_splits)
  then show ?thesis using s by blast
qed

theorem logSI_exact_match_witness:
  "\<exists>patch' s.
     map_of [(''P1'',
              \<lparr>patch_elements =
                 [(''s1'',
                   \<lparr>src_ra = Fin 15, src_dec = Fin 10, src_brightness = Fin (5 / 2),
                      src_reference_frequency = VFloat (Fin 100),
                      src_spectral_index = ''[0.5]'', src_logSI = False\<rparr>)],
                 patch_ra = Fin 15, patch_dec = Fin 10\<rparr>)] ''P1'' = Some patch'
   \<and> map_of (patch_elements patch') ''s1'' = Some s
   \<and> src_logSI s = False"
proof -
  let ?its = "[(''name'', Idx 0), (''patch'', Idx 1), (''ra'', Idx 2), (''dec'', Idx 3),
        (''i'', Idx 4), (''referencefrequency'', Idx 5),
        (''default_referencefrequency'', Flt (Fin 60000000)),
        (''spectralindex'', Idx 6), (''logarithmicsi'', Idx 7)]"
  let ?src = "''s1,P1,01:00:00,+10.00.00,2.5,100,[0.5],True\<newline>''"
  have old: "map_of [(''P1'', \<lparr>patch_elements = [], patch_ra = Fin 15, patch_dec = Fin 10\<rparr>)] ''P1''
               = Some \<lparr>patch_elements = [], patch_ra = Fin 15, patch_dec = Fin 10\<rparr>"
    by simp
  have a: "\<not> skip_line (py_rstrip ''\<newline>'' ?src)"
     "get_item ?its (py_split (CHR '','') (py_rstrip ''\<newline>'' ?src)) ''patch'' = Inr ''P1''"
     "get_item ?its (py_split (CHR '','') (py_rstrip ''\<newline>'' ?src)) ''name'' = Inr ''s1''"
    by code_simp+
  have l: "get_item ?its (py_split (CHR '','') (py_rstrip ''\<newline>'' ?src)) ''logarithmicsi'' = Inr ''True''"
    by code_simp
  have res: "process_lines ?its [] (['',P1,01:00:00,+10.00.00\<newline>''] @ [?src]) =
     Inr [(''P1'',
              \<lparr>patch_elements =
                 [(''s1'',
                   \<lparr>src_ra = Fin 15, src_dec = Fin 10, src_brightness = Fin (5 / 2),
                      src_reference_frequency = VFloat (Fin 100),
                      src_spectral_index = ''[0.5]'', src_logSI = False\<rparr>)],
                 patch_ra = Fin 15, patch_dec = Fin 10\<rparr>)]"
    by code_simp
  show ?thesis
    using logSI_exact_match [OF example_header example_patch_line a(1) refl a(2) old a(3) res]
    by (simp add: l)
qed

section \<open>C7: the declination of zero degrees\<close>

text \<open>
  Claim C7: \<^verbatim>\<open>parse_declination\<close> returns \<open>|deg| + min/60 + sec/3600\<close> with the sign of the
  degree field, zero degrees counting as positive, so that \<^verbatim>\<open>-00.30.00\<close> gives \<open>+ 0.5\<close>.

  The code multiplies by \<^verbatim>\<open>np.sign(deg)\<close>, which is 0 for zero degrees: half a degree north
  and half a degree south are both read as 0. (\<^verbatim>\<open>parse_right_ascension\<close> takes its sign from
  the leading character instead and has 1 for zero hours.)
\<close>

theorem declination_zero_degrees:
  "parse_declination ''+00.30.00'' = Inr (Fin 0)
 \<and> parse_declination ''-00.30.00'' = Inr (Fin 0)"
  by code_simp

text \<open>In general the factor is \<open>sgn deg\<close>, so the formula of the claim holds for every degree
  field other than zero.\<close>

lemma parse_declination_value:
  assumes "flds = py_split (CHR ''.'') (py_strip ''+'' (py_remove (CHR '' '') s))"
      and "py_int (hd flds) = Inr deg"
      and "2 \<le> length flds"
      and "py_int (flds ! 1) = Inr mn"
      and "py_float (py_join ''.'' (drop 2 flds)) = Inr (Fin sec)"
  shows "parse_declination s =
           Inr (Fin (of_int (sgn deg) * (of_int \<bar>deg\<bar> + of_int mn / 60 + sec / 3600)))"
  using assms by (simp add: parse_declination_def Let_def)

section \<open>C8: the logarithmic model at the reference frequency\<close>

text \<open>
  Claim C8: in the logarithmic model, whatever the reference brightness and the
  coefficients (each a float literal), the brightness at the reference frequency is the
  reference brightness itself. The reference frequency is a finite float other than 0, so
  that \<open>x = 1\<close>.
\<close>

theorem logarithmic_at_reference_frequency:
  assumes "list_all (\<lambda>c. \<not> isl (py_float c)) (py_split (CHR '','') (py_strip ''[]'' spectral_index))"
      and "f \<noteq> 0"
  shows "logarithmic_spectral_index_brightness (Fin f) brightness (VFloat (Fin f)) spectral_index
           = Inr brightness"
proof -
  have x: "py_truediv (Fin f) (VFloat (Fin f)) = Inr (Fin 1)"
    using assms(2) by (simp add: py_truediv_def pf_truediv_def)
  obtain y where "sum_terms (\<lambda>i. Inr (np_pow (np_log10 (Fin 1)) i)) (Fin 0) 0
                    (py_split (CHR '','') (py_strip ''[]'' spectral_index)) = Inr y"
    using sum_terms_total [OF assms(1)] by blast
  then show ?thesis
    using x by (simp add: logarithmic_spectral_index_brightness_def np_power_one pf_mul_one)
qed

theorem logarithmic_at_reference_frequency_witness:
  "logarithmic_spectral_index_brightness (Fin 100) (Fin (5 / 2)) (VFloat (Fin 100)) ''[0.5,-0.2]''
     = Inr (Fin (5 / 2))"
proof -
  have 1: "list_all (\<lambda>c. \<not> isl (py_float c)) (py_split (CHR '','') (py_strip ''[]'' ''[0.5,-0.2]''))"
    by code_simp
  have 2: "(100::real) \<noteq> 0" by simp
  show ?thesis
    using logarithmic_at_reference_frequency [OF 1 2] by simp
qed

section \<open>C9: the linear model on an example\<close>

text \<open>
  Claim C9: in the linear model with coefficients \<^verbatim>\<open>[2.0,3.0]\<close>, reference frequency 100 and
  frequency 150, \<open>x\<close> is 0.5 and the result is 3.5.

  The result is the reference brightness plus 3.5: with reference brightness 1 it is 4.5.
\<close>

theorem linear_example_counterexample:
  "linear_spectral_index_brightness (Fin 150) (Fin 1) (VFloat (Fin 100)) ''[2.0,3.0]''
     = Inr (Fin (9 / 2))"
  by code_simp

text \<open>
  C9 as amended: there \<open>x\<close> is 0.5 and the result is the reference brightness plus 3.5
  (so 3.5 when the reference brightness is 0).
\<close>

theorem linear_example:
  "and_then (py_truediv (Fin 150) (VFloat (Fin 100))) (\<lambda>q. Inr (pf_add q (Fin (- 1))))
     = Inr (Fin (1 / 2))
 \<and> linear_spectral_index_brightness (Fin 150) brightness (VFloat (Fin 100)) ''[2.0,3.0]''
     = Inr (pf_add brightness (Fin (7 / 2)))"
  by (simp add: linear_spectral_index_brightness_def linear_example_coefficients
      py_truediv_def pf_truediv_def py_pow_def float_max_def)

section \<open>C10: a row of a known patch without brightness\<close>

text \<open>
  Claim C10: a data row whose \<^verbatim>\<open>patch\<close> field names a patch that is already in the sky
  model and whose \<^verbatim>\<open>i\<close> field is empty, such as a patch definition given twice, makes the
  parse raise; the row is neither skipped nor does it define the patch again.

  The error is the \<^verbatim>\<open>ValueError\<close> of \<^verbatim>\<open>float("")\<close> when the \<^verbatim>\<open>referencefrequency\<close> field of the
  row is a float literal, and otherwise the \<^verbatim>\<open>TypeError\<close> of the lookup of the default
  reference frequency, which comes first.
\<close>

theorem empty_brightness_source_row:
  assumes "parse_formatstring header = Inr its"
      and "process_lines its [] before = Inr els"
      and "\<not> skip_line (py_rstrip ''\<newline>'' line)"
      and "inputfields = py_split (CHR '','') (py_rstrip ''\<newline>'' line)"
      and "get_item its inputfields ''patch'' = Inr patch_name"
      and "map_of els patch_name = Some patch"
      and "get_item its inputfields ''i'' = Inr []"
      and "get_item its inputfields ''referencefrequency'' = Inr s"
  shows "Skymodel_init (header # before @ line # after) =
           Inl (case py_float s of Inl _ \<Rightarrow> TypeError | Inr _ \<Rightarrow> ValueError [])"
proof -
  note its = parse_formatstring_items [OF assms(1)]
  have empty: "py_float [] = Inl (ValueError [])"
    by (simp add: py_float_def strip_space_def py_remove_def parse_sign_def py_lower_def
        parse_decimal_def)
  have "process_fields its els inputfields =
          Inl (case py_float s of Inl _ \<Rightarrow> TypeError | Inr _ \<Rightarrow> ValueError [])"
  proof (cases "py_float s")
    case (Inl e)
    have "reference_frequency_of its inputfields = Inl TypeError"
      using assms(1,8) Inl by (rule reference_frequency_of_default)
    then show ?thesis
      using Inl assms(5,6) by (simp add: process_fields_def)
  next
    case (Inr f)
    have rf: "reference_frequency_of its inputfields = Inr (VFloat f)"
      using Inr assms(8) by (simp add: reference_frequency_of_def)
    obtain l where l: "logSI_of its inputfields = Inr l"
      using its logSI_of_total by blast
    obtain nm where nm: "get_item its inputfields ''name'' = Inr nm"
      using its get_item_Idx by blast
    obtain r where r: "get_item its inputfields ''ra'' = Inr r"
      using its get_item_Idx by blast
    obtain d where d: "get_item its inputfields ''dec'' = Inr d"
      using its get_item_Idx by blast
    show ?thesis
      using Inr assms(5-7) rf l nm r d empty by (simp add: process_fields_def)
  qed
  then show ?thesis
    using assms(1-4) Skymodel_init_row_error by blast
qed

theorem empty_brightness_source_row_witness:
  "Skymodel_init
     [''Name,Patch,Ra,Dec,I,ReferenceFrequency=60e6,SpectralIndex,LogarithmicSI\<newline>'',
      '',P1,01:00:00,+10.00.00\<newline>'',
      '',P1,01:00:00,+10.00.00\<newline>''] = Inl TypeError
 \<and> Skymodel_init
     [''Name,Patch,Ra,Dec,I,ReferenceFrequency=60e6,SpectralIndex,LogarithmicSI\<newline>'',
      '',P1,01:00:00,+10.00.00\<newline>'',
      ''s1,P1,01:00:00,+10.00.00,,100,[0.5],true\<newline>''] = Inl (ValueError [])"
proof -
  let ?its = "[(''name'', Idx 0), (''patch'', Idx 1), (''ra'', Idx 2), (''dec'', Idx 3),
        (''i'', Idx 4), (''referencefrequency'', Idx 5),
        (''default_referencefrequency'', Flt (Fin 60000000)),
        (''spectralindex'', Idx 6), (''logarithmicsi'', Idx 7)]"
  let ?src = "''s1,P1,01:00:00,+10.00.00,,100,[0.5],true\<newline>''"
  let ?def = "'',P1,01:00:00,+10.00.00\<newline>''"
  have old: "map_of [(''P1'', \<lparr>patch_elements = [], patch_ra = Fin 15, patch_dec = Fin 10\<rparr>)] ''P1''
               = Some \<lparr>patch_elements = [], patch_ra = Fin 15, patch_dec = Fin 10\<rparr>"
    by simp
  have a: "\<not> skip_line (py_rstrip ''\<newline>'' ?def)"
     "get_item ?its (py_split (CHR '','') (py_rstrip ''\<newline>'' ?def)) ''patch'' = Inr ''P1''"
     "get_item ?its (py_split (CHR '','') (py_rstrip ''\<newline>'' ?def)) ''i'' = Inr []"
     "get_item ?its (py_split (CHR '','') (py_rstrip ''\<newline>'' ?def)) ''referencefrequency'' = Inr []"
     "py_float [] = Inl (ValueError [])"
    by code_simp+
  have b: "\<not> skip_line (py_rstrip ''\<newline>'' ?src)"
     "get_item ?its (py_split (CHR '','') (py_rstrip ''\<newline>'' ?src)) ''patch'' = Inr ''P1''"
     "get_item ?its (py_split (CHR '','') (py_rstrip ''\<newline>'' ?src)) ''i'' = Inr []"
     "get_item ?its (py_split (CHR '','') (py_rstrip ''\<newline>'' ?src)) ''referencefrequency'' = Inr ''100''"
     "py_float ''100'' = Inr (Fin 100)"
    by code_simp+
  show ?thesis
    using empty_brightness_source_row [OF example_header example_patch_line a(1) refl a(2) old a(3,4), of "[]"]
          empty_brightness_source_row [OF example_header example_patch_line b(1) refl b(2) old b(3,4), of "[]"]
    by (simp add: a(5) b(5))
qed

end
